theory Spec2Isabelle
  imports Complex_Main "HOL-Library.Multiset" "HOL-Library.Log_Nat"
begin

section \<open>Bet Hub: the client-side loan, staking and dashboard logic\<close>

text \<open>
  The sources are React components written in TypeScript. Their pure computations
  (limits, percentages, return figures, list filters) become HOL functions; their
  event handlers become functions from the component state to the new state together
  with the trace of requests the handler issues. A JavaScript number is the rational
  (\<open>rat\<close>) it denotes; \<open>NaN\<close> and the infinities are outside the model, and where
  the source can produce \<open>NaN\<close> (an empty input field, a failed \<open>parseFloat\<close>) the
  value is an \<open>option\<close> with \<open>None\<close> for it. Comparisons of numbers are exact in
  the source as well. The sum that the borrowing guard compares and the quotients and
  products behind the whole percentages are the operations of double-precision
  arithmetic, \<open>fadd\<close>, \<open>fdiv\<close> and \<open>fmul\<close> below; the borrowing limit, whose
  products are exact in double precision, the sums of stakes and the return figures,
  which the pages show to two decimals, are kept as exact values.
\<close>

subsection \<open>Numbers\<close>

text \<open>\<open>Math.round\<close> rounds to the nearest integer, halves towards plus infinity.\<close>

definition Math_round :: "rat \<Rightarrow> int" where
  "Math_round x = \<lfloor>x + 1 / 2\<rfloor>"

text \<open>
  Double precision (IEEE 754 binary64, the numbers of JavaScript). A double other than
  zero is a multiple of \<open>2 ^ (e - 52)\<close>, where \<open>e\<close> is the exponent of its
  magnitude, \<open>2 ^ e \<le> \<bar>x\<bar> < 2 ^ (e + 1)\<close>, and not below \<open>-1022\<close>; an operation
  returns the exact result rounded to the nearest such multiple, a tie going to the
  even one. Results beyond the largest double, which JavaScript turns into
  \<open>Infinity\<close>, are outside the model.
\<close>

definition double_exponent :: "rat \<Rightarrow> int" where
  "double_exponent x =
     (let a = \<bar>x\<bar> in
      if 1 \<le> a then bitlen \<lfloor>a\<rfloor> - 1 else - bitlen (\<lceil>1 / a\<rceil> - 1))"

definition round_half_even :: "rat \<Rightarrow> int" where
  "round_half_even x =
     (let n = \<lfloor>x\<rfloor>; r = x - of_int n in
      if r < 1 / 2 then n
      else if 1 / 2 < r then n + 1
      else if even n then n else n + 1)"

definition to_double :: "rat \<Rightarrow> rat" where
  "to_double x =
     (if x = 0 then 0
      else (let q = 2 powi (max (double_exponent x) (- 1022) - 52)
            in of_int (round_half_even (x / q)) * q))"


definition fmul :: "rat \<Rightarrow> rat \<Rightarrow> rat" where
  "fmul a b = to_double (a * b)"

definition fdiv :: "rat \<Rightarrow> rat \<Rightarrow> rat" where
  "fdiv a b = to_double (a / b)"

subsection \<open>The account as the client sees it (AuthContext, types.ts)\<close>

record user =
  name :: string
  email :: string
  money :: rat
  trust :: rat
  pvt_cards :: rat
  loan :: rat

text \<open>
  \<open>user?.loan || 0\<close>, \<open>user?.money || 0\<close>, \<open>user?.trust || 0\<close>: zero when nobody is
  logged in, the field otherwise (a field that is \<open>0\<close> gives \<open>0\<close> either way).
\<close>

definition userLoan :: "user option \<Rightarrow> rat" where
  "userLoan u = (case u of None \<Rightarrow> 0 | Some usr \<Rightarrow> loan usr)"

definition userMoney :: "user option \<Rightarrow> rat" where
  "userMoney u = (case u of None \<Rightarrow> 0 | Some usr \<Rightarrow> money usr)"

definition userTrust :: "user option \<Rightarrow> rat" where
  "userTrust u = (case u of None \<Rightarrow> 0 | Some usr \<Rightarrow> trust usr)"

subsection \<open>LoanPage: the borrowing limit\<close>

definition loanLimitMultiplier :: "rat \<Rightarrow> rat" where
  "loanLimitMultiplier t =
     (if t < 50 then 0
      else if t < 300 then 2 / 10
      else if t < 500 then 5 / 10
      else if t < 700 then 1
      else if t < 850 then 15 / 10
      else 2)"

definition baseLimit :: rat where
  "baseLimit = 2500"

definition calculatedLimit :: "user option \<Rightarrow> rat" where
  "calculatedLimit u = baseLimit * loanLimitMultiplier (userTrust u)"

definition loanLimit :: "user option \<Rightarrow> rat" where
  "loanLimit u = min (calculatedLimit u) 5000"

subsection \<open>LoanPage: state, requests and handlers\<close>

datatype message_type = success | error

text \<open>
  A message text is a literal, or a literal followed by an amount
  (\<open>`Successfully repaid $${repayAmount}`\<close>).
\<close>

datatype message_text = Plain string | WithAmount string rat

text \<open>
  The amount fields hold \<open>number | ''\<close>: \<open>None\<close> is the empty string, for which
  \<open>Number('')\<close> is \<open>0\<close> and \<open>!''\<close> is true.
\<close>

record loan_page =
  repayAmount :: "rat option"
  borrowAmount :: "rat option"
  loading :: bool
  message :: "(message_type \<times> message_text) option"

definition Number :: "rat option \<Rightarrow> rat" where
  "Number a = (case a of None \<Rightarrow> 0 | Some x \<Rightarrow> x)"

definition falsy :: "rat option \<Rightarrow> bool" where
  "falsy a = (case a of None \<Rightarrow> True | Some x \<Rightarrow> x = 0)"

text \<open>
  What a handler sends out, in order: requests to the server through \<open>api\<close>, and
  \<open>refreshUser\<close>, the only way the page's copy of the account changes.
\<close>

datatype request =
    repayLoan string rat
  | applyLoan string rat
  | joinBet string string rat string
  | getBet string
  | refreshUser

text \<open>
  The server is outside the sources: its answer to a request is a parameter. A reply
  carries the \<open>error\<close> field of the JSON body when there is one; \<open>Throws\<close> is a
  rejected \<open>fetch\<close> or an unreadable body, which the handlers catch.
\<close>

datatype response = Reply "string option" | Throws

definition has_error :: "string option \<Rightarrow> bool" where
  "has_error e = (case e of None \<Rightarrow> False | Some s \<Rightarrow> s \<noteq> [])"

definition handleRepay ::
  "(request \<Rightarrow> response) \<Rightarrow> user option \<Rightarrow> loan_page \<Rightarrow> loan_page \<times> request list" where
  "handleRepay api u s =
     (case u of
        None \<Rightarrow> (s, [])
      | Some usr \<Rightarrow>
          if falsy (repayAmount s) \<or> Number (repayAmount s) \<le> 0 then
            (s\<lparr>message := Some (error, Plain ''Please enter a valid amount'')\<rparr>, [])
          else if Number (repayAmount s) > userMoney u then
            (s\<lparr>message := Some (error, Plain ''Insufficient funds'')\<rparr>, [])
          else
            (let req = repayLoan (email usr) (Number (repayAmount s)) in
             case api req of
               Reply e \<Rightarrow>
                 if has_error e then
                   (s\<lparr>loading := False, message := Some (error, Plain (the e))\<rparr>, [req])
                 else
                   (s\<lparr>loading := False,
                      message := Some (success,
                        WithAmount ''Successfully repaid $'' (Number (repayAmount s))),
                      repayAmount := None\<rparr>,
                    [req, refreshUser])
             | Throws \<Rightarrow>
                 (s\<lparr>loading := False, message := Some (error, Plain ''Repayment failed'')\<rparr>,
                  [req])))"


text \<open>The MAX button of the repay form: \<open>userMoney > userLoan ? userLoan : userMoney\<close>.\<close>

definition clickMax :: "user option \<Rightarrow> loan_page \<Rightarrow> loan_page" where
  "clickMax u s =
     s\<lparr>repayAmount := Some (if userMoney u > userLoan u then userLoan u else userMoney u)\<rparr>"

subsection \<open>Market records as the server sends them\<close>

text \<open>
  A participant entry \<open>{user, prediction, amount}\<close>; the fields carry the prefix
  \<open>p_\<close> because the component state below has a \<open>prediction\<close> and an
  \<open>amount\<close> of its own.
\<close>

record participant =
  p_user :: string
  p_prediction :: string
  p_amount :: rat

text \<open>
  The \<open>participants\<close> and \<open>outcomes\<close> fields arrive either as arrays or as JSON
  text, and every reader evaluates \<open>Array.isArray(x) ? x : JSON.parse(x || dflt)\<close>.
  A string field is represented by what \<open>JSON.parse\<close> makes of it: the array it
  encodes, \<open>null\<close> for the text \<open>null\<close> (valid JSON that is not an array), or a
  syntax error. \<open>Absent\<close> stands for \<open>undefined\<close>, \<open>null\<close>, the empty string and
  every other falsy value, for which \<open>||\<close> picks the default text. Other non-array
  JSON values (numbers, strings, objects) are not represented.
\<close>

datatype 'a field = Absent | Array "'a list" | Json_array "'a list" | Json_null | Malformed

datatype js_error = SyntaxError | TypeError

datatype 'a js_value = Null | Arr "'a list"

definition read_field :: "'a list \<Rightarrow> 'a field \<Rightarrow> js_error + 'a js_value" where
  "read_field dflt f =
     (case f of
        Absent \<Rightarrow> Inr (Arr dflt)
      | Array xs \<Rightarrow> Inr (Arr xs)
      | Json_array xs \<Rightarrow> Inr (Arr xs)
      | Json_null \<Rightarrow> Inr Null
      | Malformed \<Rightarrow> Inl SyntaxError)"

text \<open>
  \<open>pool\<close> and \<open>base_price\<close> may be missing (the sources write \<open>bet.pool || 0\<close>,
  \<open>bet.pool?.toFixed\<close>, \<open>bet.base_price || 0\<close>); \<open>id\<close> is \<open>bet_id\<close> here.
\<close>

record bet =
  bet_id :: string
  creator :: string
  status :: string
  pool :: "rat option"
  base_price :: "rat option"
  participants :: "participant field"
  outcomes :: "string field"

text \<open>\<open>x || d\<close> on an optional number: \<open>d\<close> when \<open>x\<close> is missing or \<open>0\<close>.\<close>

definition or_default :: "rat option \<Rightarrow> rat \<Rightarrow> rat" where
  "or_default x d = (case x of None \<Rightarrow> d | Some v \<Rightarrow> if v = 0 then d else v)"

text \<open>\<open>x > 0\<close> on an optional number: false when \<open>x\<close> is \<open>undefined\<close>.\<close>

definition positive :: "rat option \<Rightarrow> bool" where
  "positive x = (case x of None \<Rightarrow> False | Some v \<Rightarrow> v > 0)"

text \<open>\<open>ps.filter(p => p.prediction === o).reduce((sum, p) => sum + p.amount, 0)\<close>.\<close>

definition stakedOn :: "participant list \<Rightarrow> string \<Rightarrow> rat" where
  "stakedOn ps outcome =
     foldl (\<lambda>sum p. sum + p_amount p) 0 (filter (\<lambda>p. p_prediction p = outcome) ps)"

subsection \<open>PublicDashboard: the two lists and the card statistics\<close>

definition is_completed :: "bet \<Rightarrow> bool" where
  "is_completed b = (status b = ''RESULT_DECLARED'' \<or> status b = ''CLOSED'')"

definition is_active :: "bet \<Rightarrow> bool" where
  "is_active b = (status b \<noteq> ''RESULT_DECLARED'' \<and> status b \<noteq> ''CLOSED'')"

text \<open>
  \<open>fetchBets\<close>: \<open>data\<close> is \<open>None\<close> when the response is not an array; the result is
  the pair (\<open>bets\<close>, \<open>completedBets\<close>) handed to the two state setters.
\<close>

definition fetchBets :: "bet list option \<Rightarrow> bet list \<times> bet list" where
  "fetchBets data =
     (let allBets = (case data of Some bs \<Rightarrow> bs | None \<Rightarrow> []);
          active = filter is_active allBets;
          completed = filter is_completed allBets
      in (active, completed))"

text \<open>A card statistic \<open>{name, percent}\<close>.\<close>

record card_stat =
  c_name :: string
  c_percent :: int

text \<open>
  \<open>getStats\<close> takes \<open>bet: any\<close>. What it reads of its argument are the two list
  fields, and an entry of the participants array need not be an object: \<open>None\<close>
  stands for an entry that is \<open>null\<close> or \<open>undefined\<close>, on which reading
  \<open>p.prediction\<close> raises a TypeError. (An entry that is an object without that
  property, or a number, counts as a participant and matches no outcome; it behaves as
  a participant whose prediction is no outcome of the market.)
\<close>

record any_bet =
  any_participants :: "participant option field"
  any_outcomes :: "string field"

text \<open>
  \<open>xs.map(f)\<close> and \<open>ps.filter(p => p.prediction === outcome)\<close> where the callback may
  throw: the entries are visited in order and the first exception ends the call.
\<close>

fun map_js :: "('a \<Rightarrow> js_error + 'b) \<Rightarrow> 'a list \<Rightarrow> js_error + 'b list" where
  "map_js f [] = Inr []"
| "map_js f (x # xs) =
     (case f x of
        Inl e \<Rightarrow> Inl e
      | Inr y \<Rightarrow> (case map_js f xs of Inl e \<Rightarrow> Inl e | Inr ys \<Rightarrow> Inr (y # ys)))"

fun filter_prediction :: "participant option list \<Rightarrow> string \<Rightarrow> js_error + participant list" where
  "filter_prediction [] outcome = Inr []"
| "filter_prediction (None # ps) outcome = Inl TypeError"
| "filter_prediction (Some p # ps) outcome =
     (case filter_prediction ps outcome of
        Inl e \<Rightarrow> Inl e
      | Inr qs \<Rightarrow> Inr (if p_prediction p = outcome then p # qs else qs))"

text \<open>
  \<open>getStats\<close> on such an argument. Both fields are read inside one \<open>try\<close>: a
  syntax error in either, or a \<open>bet\<close> that is \<open>null\<close> (\<open>None\<close>), replaces both by
  the fallbacks. What follows the \<open>try\<close> is unguarded: \<open>participants.length\<close> on
  \<open>null\<close>, \<open>outcomes.map\<close> on \<open>null\<close> and the filter callback on a \<open>null\<close> entry
  raise a TypeError. The quotient and the product are double-precision operations.
\<close>

definition getStats_any :: "any_bet option \<Rightarrow> js_error + card_stat list" where
  "getStats_any b =
     (let parsed =
            (case b of
               None \<Rightarrow> Inl TypeError
             | Some bt \<Rightarrow>
                 (case read_field [] (any_participants bt) of
                    Inl e \<Rightarrow> Inl e
                  | Inr ps \<Rightarrow>
                      (case read_field [''Yes'', ''No''] (any_outcomes bt) of
                         Inl e \<Rightarrow> Inl e
                       | Inr os \<Rightarrow> Inr (ps, os))));
          (ps, os) = (case parsed of
                        Inl e \<Rightarrow> (Arr [], Arr [''Yes'', ''No''])
                      | Inr v \<Rightarrow> v)
      in case ps of
           Null \<Rightarrow> Inl TypeError
         | Arr plist \<Rightarrow>
             (let total = length plist in
              case os of
                Null \<Rightarrow> Inl TypeError
              | Arr olist \<Rightarrow>
                  if total = 0 then
                    Inr (map (\<lambda>out. \<lparr>c_name = out, c_percent = 0\<rparr>) olist)
                  else
                    map_js (\<lambda>outcome.
                       case filter_prediction plist outcome of
                         Inl e \<Rightarrow> Inl e
                       | Inr matching \<Rightarrow>
                           (let count = length matching
                            in Inr \<lparr>c_name = outcome,
                                    c_percent =
                                      Math_round
                                        (fmul (fdiv (of_nat count) (of_nat total)) 100)\<rparr>))
                     olist))"

text \<open>
  The same function on a market record all of whose participant entries are objects,
  the records of the rest of this theory.
\<close>

definition as_any :: "bet \<Rightarrow> any_bet" where
  "as_any b =
     \<lparr>any_participants = map_field Some (participants b), any_outcomes = outcomes b\<rparr>"

definition getStats :: "bet option \<Rightarrow> js_error + card_stat list" where
  "getStats b = getStats_any (map_option as_any b)"

subsection \<open>PrivateDashboard: the three lists and the pool row\<close>

text \<open>
  \<open>fetchData\<close>, the part that sorts the fetched markets into \<open>createdPools\<close>,
  \<open>joinedPools\<close> and \<open>completedPools\<close> (returned in this order), for a logged-in
  user and a response without an \<open>error\<close> field; \<open>myBets\<close> is \<open>None\<close> when that
  response is not an array. \<open>lowerTrim\<close> stands for \<open>s.toLowerCase().trim()\<close>, a
  parameter.
\<close>

definition fetchData ::
  "(string \<Rightarrow> string) \<Rightarrow> user \<Rightarrow> bet list option \<Rightarrow> bet list \<times> bet list \<times> bet list" where
  "fetchData lowerTrim usr myBets =
     (let betsArray = (case myBets of Some bs \<Rightarrow> bs | None \<Rightarrow> []);
          userEmailLower = lowerTrim (email usr);
          created = filter (\<lambda>b. lowerTrim (creator b) = userEmailLower) betsArray;
          allJoined = filter (\<lambda>b. lowerTrim (creator b) \<noteq> userEmailLower) betsArray;
          completed = filter is_completed allJoined;
          joined = filter is_active allJoined
      in (created, joined, completed))"


subsection \<open>MarketDetail: statistics, quick-bet panel and the bet handler\<close>

text \<open>
  A statistic \<open>{outcome, count, percent, amount}\<close>, fields prefixed \<open>s_\<close>, and
  the list the page computes while rendering. Neither field reader is guarded here: a
  syntax error ends the rendering, and so does \<open>outcomes.map\<close> on \<open>null\<close> or, once
  there is an outcome to map over, \<open>participants.filter\<close> on \<open>null\<close>. The quotients
  and the product behind \<open>percent\<close> are double-precision operations.
\<close>

record outcome_stat =
  s_outcome :: string
  s_count :: nat
  s_percent :: int
  s_amount :: rat

definition outcomeStats :: "bet \<Rightarrow> js_error + outcome_stat list" where
  "outcomeStats b =
     (case read_field [] (participants b) of
        Inl e \<Rightarrow> Inl e
      | Inr ps \<Rightarrow>
     (case read_field [] (outcomes b) of
        Inl e \<Rightarrow> Inl e
      | Inr Null \<Rightarrow> Inl TypeError
      | Inr (Arr olist) \<Rightarrow>
          (case ps of
             Null \<Rightarrow> if olist = [] then Inr [] else Inl TypeError
           | Arr plist \<Rightarrow>
               Inr (map (\<lambda>outcome.
                      let totalAmount = stakedOn plist outcome;
                          percent =
                            (if positive (pool b)
                             then Math_round (fmul (fdiv totalAmount (the (pool b))) 100)
                             else if length olist > 0
                                  then Math_round (fdiv 100 (of_nat (length olist)))
                                  else 0)
                      in \<lparr>s_outcome = outcome,
                          s_count = length (filter (\<lambda>p. p_prediction p = outcome) plist),
                          s_percent = percent,
                          s_amount = totalAmount\<rparr>)
                    olist))))"


text \<open>
  The component state the bet handler reads and writes. \<open>amount\<close> is the text of the
  input field; \<open>parseFloat\<close> is a parameter, \<open>None\<close> for \<open>NaN\<close>.
\<close>

record market_detail =
  bet :: bet
  prediction :: string
  amount :: string
  bettingError :: message_text
  placingBet :: bool

definition handlePlaceBet ::
  "(string \<Rightarrow> rat option) \<Rightarrow> (request \<Rightarrow> response) \<Rightarrow> (string \<Rightarrow> bet option) \<Rightarrow>
   user option \<Rightarrow> market_detail \<Rightarrow> market_detail \<times> request list" where
  "handlePlaceBet parseFloat api fetched u s =
     (case u of
        None \<Rightarrow> (s\<lparr>bettingError := Plain ''Please login to place a bet.''\<rparr>, [])
      | Some usr \<Rightarrow>
          (case parseFloat (amount s) of
             None \<Rightarrow> (s\<lparr>bettingError := Plain ''Invalid amount.''\<rparr>, [])
           | Some betAmount \<Rightarrow>
               if betAmount \<le> 0 then
                 (s\<lparr>bettingError := Plain ''Invalid amount.''\<rparr>, [])
               else if betAmount < or_default (base_price (bet s)) 0 then
                 (s\<lparr>bettingError :=
                      WithAmount ''Minimum bet is $'' (or_default (base_price (bet s)) 10)\<rparr>,
                  [])
               else if money usr < betAmount then
                 (s\<lparr>bettingError := Plain ''Insufficient funds.''\<rparr>, [])
               else
                 (let req = joinBet (bet_id (bet s)) (email usr) betAmount (prediction s) in
                  case api req of
                    Reply e \<Rightarrow>
                      if has_error e then
                        (s\<lparr>bettingError := Plain (the e), placingBet := False\<rparr>, [req])
                      else
                        (case fetched (bet_id (bet s)) of
                           Some updatedBet \<Rightarrow>
                             (s\<lparr>bettingError := Plain [], amount := [], bet := updatedBet,
                                placingBet := False\<rparr>,
                              [req, refreshUser, getBet (bet_id (bet s))])
                         | None \<Rightarrow>
                             (s\<lparr>bettingError := Plain ''Failed to place bet.'', amount := [],
                                placingBet := False\<rparr>,
                              [req, refreshUser, getBet (bet_id (bet s))]))
                  | Throws \<Rightarrow>
                      (s\<lparr>bettingError := Plain ''Failed to place bet.'', placingBet := False\<rparr>,
                       [req]))))"





subsection \<open>Settlement, as the specification describes it\<close>




subsection \<open>Sample data: the scenario of the specification\<close>

text \<open>
  A market with outcomes Yes and No and a minimum stake of 10, on which one user has
  staked 100 on Yes and another 50 on No; variants of it with another status, another
  creator or no stakes; and stand-ins for the parameters of the handlers.
\<close>

definition ann :: user where
  "ann = \<lparr>name = ''Ann'', email = ''ann@x.io'', money = 100, trust = 720,
           pvt_cards = 0, loan = 3000\<rparr>"

definition scenario_stakes :: "participant list" where
  "scenario_stakes =
     [\<lparr>p_user = ''ann@x.io'', p_prediction = ''Yes'', p_amount = 100\<rparr>,
      \<lparr>p_user = ''bob@x.io'', p_prediction = ''No'', p_amount = 50\<rparr>]"

definition scenario_market :: bet where
  "scenario_market =
     \<lparr>bet_id = ''m1'', creator = ''carol@x.io'', status = ''OPEN'', pool = Some 150,
      base_price = Some 10, participants = Array scenario_stakes,
      outcomes = Array [''Yes'', ''No'']\<rparr>"

definition declared_market :: bet where
  "declared_market = scenario_market\<lparr>bet_id := ''m2'', status := ''RESULT_DECLARED''\<rparr>"

definition own_market :: bet where
  "own_market = scenario_market\<lparr>bet_id := ''m3'', creator := ''ann@x.io''\<rparr>"

definition empty_market :: bet where
  "empty_market = scenario_market\<lparr>bet_id := ''m4'', pool := Some 0, participants := Array []\<rparr>"

definition null_market :: bet where
  "null_market = scenario_market\<lparr>bet_id := ''m5'', participants := Json_null\<rparr>"

definition sample_parseFloat :: "string \<Rightarrow> rat option" where
  "sample_parseFloat t =
     (if t = ''0'' then Some 0
      else if t = ''5'' then Some 5
      else if t = ''50'' then Some 50
      else if t = ''500'' then Some 500
      else None)"

definition server_accepts :: "request \<Rightarrow> response" where
  "server_accepts r = Reply None"

definition refetch :: "string \<Rightarrow> bet option" where
  "refetch i = Some scenario_market"

definition quick_bet :: "string \<Rightarrow> market_detail" where
  "quick_bet t =
     \<lparr>bet = scenario_market, prediction = ''Yes'', amount = t, bettingError = Plain [],
      placingBet = False\<rparr>"

section \<open>Theorems\<close>

subsection \<open>Auxiliary facts: rounding, double precision, callbacks and filters\<close>

lemma Math_round_percent:
  assumes "0 \<le> x" and "x \<le> 100"
  shows "0 \<le> Math_round x \<and> Math_round x \<le> 100"
proof -
  have "0 \<le> \<lfloor>x + 1 / 2\<rfloor>"
    using assms(1) by (simp add: zero_le_floor)
  moreover have "\<lfloor>x + 1 / 2\<rfloor> < 101"
    using assms(2) by (simp add: floor_less_iff)
  ultimately show ?thesis
    by (simp add: Math_round_def)
qed

lemma mset_filter_split:
  "mset (filter P xs) + mset (filter (\<lambda>x. \<not> P x) xs) = mset xs"
  by (induction xs) auto

lemma is_active_not_completed: "is_active = (\<lambda>b. \<not> is_completed b)"
  by (auto simp add: fun_eq_iff is_active_def is_completed_def)



lemma round_half_even_le:
  assumes "x \<le> of_int m"
  shows "round_half_even x \<le> m"
proof (cases "\<lfloor>x\<rfloor> < m")
  case True
  then show ?thesis
    by (simp add: round_half_even_def Let_def)
next
  case False
  moreover have "\<lfloor>x\<rfloor> \<le> m"
    using assms by (simp add: floor_le_iff)
  ultimately have "\<lfloor>x\<rfloor> = m"
    by simp
  moreover from this have "of_int m \<le> x"
    using of_int_floor_le [of x] by simp
  ultimately show ?thesis
    using assms by (simp add: round_half_even_def Let_def)
qed

lemma round_half_even_ge:
  assumes "of_int m \<le> x"
  shows "m \<le> round_half_even x"
proof -
  have "m \<le> \<lfloor>x\<rfloor>"
    using assms by (simp add: le_floor_iff)
  then show ?thesis
    by (simp add: round_half_even_def Let_def)
qed

lemma double_exponent_lower:
  assumes "0 < x"
  shows "2 powi (double_exponent x) \<le> x"
proof (cases "1 \<le> x")
  case True
  then have pos: "0 < \<lfloor>x\<rfloor>"
    by (simp add: zero_less_floor )
  then have b: "1 \<le> bitlen \<lfloor>x\<rfloor>"
    by (auto simp add: bitlen_alt_def)
  from bitlen_bounds [OF pos] have "(2::int) ^ nat (bitlen \<lfloor>x\<rfloor> - 1) \<le> \<lfloor>x\<rfloor>"
    by simp
  then have "of_int ((2::int) ^ nat (bitlen \<lfloor>x\<rfloor> - 1)) \<le> (of_int \<lfloor>x\<rfloor> :: rat)"
    by (simp only: of_int_le_iff)
  also have "\<dots> \<le> x"
    by (rule of_int_floor_le)
  finally have "(2::rat) ^ nat (bitlen \<lfloor>x\<rfloor> - 1) \<le> x"
    by simp
  moreover have "double_exponent x = bitlen \<lfloor>x\<rfloor> - 1"
    using True assms by (simp add: double_exponent_def Let_def)
  ultimately show ?thesis
    using b by (simp add: power_int_def)
next
  case False
  define m where "m = \<lceil>1 / x\<rceil> - 1"
  define k where "k = bitlen m"
  from False assms have "1 < 1 / x"
    by simp
  then have "1 < \<lceil>1 / x\<rceil>"
    by (simp add: less_ceiling_iff)
  then have mpos: "0 < m"
    by (simp add: m_def)
  from bitlen_bounds [OF mpos] have "m < 2 ^ nat k"
    by (simp add: k_def)
  then have "\<lceil>1 / x\<rceil> \<le> 2 ^ nat k"
    by (simp add: m_def)
  then have "1 / x \<le> of_int (2 ^ nat k)"
    by (simp only: ceiling_le_iff)
  then have "1 / x \<le> 2 ^ nat k"
    by simp
  with assms have "1 / 2 ^ nat k \<le> x"
    by (simp add: field_simps)
  moreover have "0 \<le> k"
    by (simp add: k_def bitlen_nonneg)
  moreover have "double_exponent x = - k"
    using False assms by (simp add: double_exponent_def Let_def k_def m_def)
  moreover have "(2::rat) powi (- k) = 1 / 2 ^ nat k"
    using \<open>0 \<le> k\<close> by (simp add: power_int_minus power_int_def inverse_eq_divide power_one_over)
  ultimately show ?thesis
    by simp
qed

lemma to_double_nonneg:
  assumes "0 \<le> x"
  shows "0 \<le> to_double x"
proof (cases "x = 0")
  case True
  then show ?thesis by (simp add: to_double_def)
next
  case False
  define q :: rat where "q = 2 powi (max (double_exponent x) (- 1022) - 52)"
  have q: "0 < q" by (simp add: q_def)
  with assms have "of_int 0 \<le> x / q" by simp
  then have "0 \<le> round_half_even (x / q)" by (rule round_half_even_ge)
  with q False show ?thesis
    by (simp add: to_double_def Let_def q_def [symmetric])
qed


lemma to_double_le_int:
  assumes "0 < x" and "x \<le> of_int b" and "b < 2 ^ 52"
  shows "to_double x \<le> of_int b"
proof -
  define e where "e = max (double_exponent x) (- 1022)"
  define q :: rat where "q = 2 powi (e - 52)"
  have "2 powi (double_exponent x) \<le> x"
    using assms(1) by (rule double_exponent_lower)
  also have "x < 2 powi 52"
  proof -
    have "(of_int b :: rat) < of_int (2 ^ 52)"
      using assms(3) by (simp only: of_int_less_iff)
    with assms(2) have "x < of_int (2 ^ 52)"
      by (rule le_less_trans)
    moreover have "(of_int (2 ^ 52) :: rat) = 2 powi 52"
      by (simp add: power_int_def)
    ultimately show ?thesis
      by (simp only:)
  qed
  finally have lt: "(2::rat) powi (double_exponent x) < 2 powi 52" .
  have "double_exponent x < 52"
    by (rule power_int_le_imp_less_exp [OF _ lt]) simp_all
  then have e: "e < 52"
    by (simp add: e_def)
  define k where "k = nat (52 - e)"
  have q': "q = 1 / 2 ^ k"
    using e by (simp add: q_def k_def power_int_def field_simps)
  have "x / q = x * 2 ^ k"
    by (simp add: q')
  also have "\<dots> \<le> of_int b * 2 ^ k"
    using assms(2) by simp
  also have "\<dots> = of_int (b * 2 ^ k)"
    by simp
  finally have "round_half_even (x / q) \<le> b * 2 ^ k"
    by (rule round_half_even_le)
  then have "(of_int (round_half_even (x / q)) :: rat) \<le> of_int (b * 2 ^ k)"
    by (simp only: of_int_le_iff)
  then have "of_int (round_half_even (x / q)) * q \<le> of_int b"
    by (simp add: q' field_simps)
  with assms(1) show ?thesis
    by (simp add: to_double_def Let_def q_def e_def)
qed




lemma percent_double:
  assumes "c \<le> t" and "0 < t"
  shows "0 \<le> Math_round (fmul (fdiv (of_nat c) (of_nat t)) 100)
         \<and> Math_round (fmul (fdiv (of_nat c) (of_nat t)) 100) \<le> 100"
proof -
  define d where "d = fdiv (of_nat c) (of_nat t)"
  have share: "(0::rat) \<le> of_nat c / of_nat t" "(of_nat c :: rat) / of_nat t \<le> of_int 1"
    using assms by (simp_all add: divide_le_eq)
  have d0: "0 \<le> d"
    unfolding d_def fdiv_def using share(1) by (rule to_double_nonneg)
  have d1: "d \<le> 1"
  proof (cases "(of_nat c :: rat) / of_nat t = 0")
    case True
    then show ?thesis by (simp add: d_def fdiv_def to_double_def)
  next
    case False
    with share(1) have "(0::rat) < of_nat c / of_nat t" by simp
    from to_double_le_int [OF this share(2)] show ?thesis
      by (simp add: d_def fdiv_def)
  qed
  have p0: "0 \<le> fmul d 100"
    unfolding fmul_def using d0 by (intro to_double_nonneg) simp
  have p1: "fmul d 100 \<le> 100"
  proof (cases "d * 100 = 0")
    case True
    then show ?thesis by (simp add: fmul_def to_double_def)
  next
    case False
    with d0 have "0 < d * 100" by simp
    moreover from d1 have "d * 100 \<le> of_int 100" by simp
    ultimately have "to_double (d * 100) \<le> of_int 100"
      by (rule to_double_le_int) simp
    then show ?thesis by (simp add: fmul_def)
  qed
  from Math_round_percent [OF p0 p1] show ?thesis
    by (simp add: d_def)
qed

lemma filter_prediction_objects:
  "filter_prediction (map Some ps) outcome = Inr (filter (\<lambda>p. p_prediction p = outcome) ps)"
  by (induction ps) simp_all

lemma filter_prediction_null:
  "None \<in> set plist \<Longrightarrow> filter_prediction plist outcome = Inl TypeError"
  by (induction plist outcome rule: filter_prediction.induct) auto

lemma filter_prediction_length:
  "None \<notin> set plist \<Longrightarrow>
   \<exists>matching. filter_prediction plist outcome = Inr matching \<and> length matching \<le> length plist"
  by (induction plist outcome rule: filter_prediction.induct) (auto simp add: le_SucI)

lemma map_js_returns:
  "(\<And>x. x \<in> set xs \<Longrightarrow> f x = Inr (g x)) \<Longrightarrow> map_js f xs = Inr (map g xs)"
  by (induction xs) simp_all

lemma map_js_throws:
  "xs \<noteq> [] \<Longrightarrow> f (hd xs) = Inl e \<Longrightarrow> map_js f xs = Inl e"
  by (cases xs) simp_all


text \<open>
  The products behind the borrowing limit are exact in double precision: the literals
  \<open>0.2\<close>, \<open>0.5\<close> and \<open>1.5\<close> are the doubles nearest to them, and multiplying by
  2500 gives the whole numbers of the tier table.
\<close>

lemma loan_limit_products_exact:
  "fmul 2500 (to_double 0) = 0 \<and> fmul 2500 (to_double (2 / 10)) = 500
   \<and> fmul 2500 (to_double (5 / 10)) = 1250 \<and> fmul 2500 (to_double 1) = 2500
   \<and> fmul 2500 (to_double (15 / 10)) = 3750 \<and> fmul 2500 (to_double 2) = 5000"
  by code_simp

subsection \<open>C1: the borrowing limit follows the tier table\<close>

text \<open>
  C1. For a user with trust score \<open>t\<close> the borrowing limit is
  \<open>min(5000, 2500 * tierMultiplier(t))\<close>, the multiplier being \<open>0\<close> below 50,
  \<open>0.2\<close> on [50,300), \<open>0.5\<close> on [300,500), \<open>1.0\<close> on [500,700), \<open>1.5\<close> on
  [700,850) and \<open>2.0\<close> from 850 on.
\<close>

theorem loanLimit_tier_table:
  "(userTrust u < 50 \<longrightarrow> loanLimit u = min 5000 (2500 * 0))
   \<and> (50 \<le> userTrust u \<and> userTrust u < 300 \<longrightarrow> loanLimit u = min 5000 (2500 * (2 / 10)))
   \<and> (300 \<le> userTrust u \<and> userTrust u < 500 \<longrightarrow> loanLimit u = min 5000 (2500 * (5 / 10)))
   \<and> (500 \<le> userTrust u \<and> userTrust u < 700 \<longrightarrow> loanLimit u = min 5000 (2500 * 1))
   \<and> (700 \<le> userTrust u \<and> userTrust u < 850 \<longrightarrow> loanLimit u = min 5000 (2500 * (15 / 10)))
   \<and> (850 \<le> userTrust u \<longrightarrow> loanLimit u = min 5000 (2500 * 2))"
  by (simp add: loanLimit_def calculatedLimit_def baseLimit_def loanLimitMultiplier_def
      min.commute)

theorem loanLimit_tier_table_witness:
  "loanLimit (Some \<lparr>name = ''Ann'', email = ''ann@x.io'', money = 100, trust = 20, pvt_cards = 0, loan = 0\<rparr>) = 0
   \<and> loanLimit (Some \<lparr>name = ''Ann'', email = ''ann@x.io'', money = 100, trust = 50, pvt_cards = 0, loan = 0\<rparr>) = 500
   \<and> loanLimit (Some \<lparr>name = ''Ann'', email = ''ann@x.io'', money = 100, trust = 300, pvt_cards = 0, loan = 0\<rparr>) = 1250
   \<and> loanLimit (Some \<lparr>name = ''Ann'', email = ''ann@x.io'', money = 100, trust = 500, pvt_cards = 0, loan = 0\<rparr>) = 2500
   \<and> loanLimit (Some \<lparr>name = ''Ann'', email = ''ann@x.io'', money = 100, trust = 700, pvt_cards = 0, loan = 0\<rparr>) = 3750
   \<and> loanLimit (Some \<lparr>name = ''Ann'', email = ''ann@x.io'', money = 100, trust = 850, pvt_cards = 0, loan = 0\<rparr>) = 5000"
  using
    loanLimit_tier_table [of "Some \<lparr>name = ''Ann'', email = ''ann@x.io'', money = 100, trust = 20, pvt_cards = 0, loan = 0\<rparr>"]
    loanLimit_tier_table [of "Some \<lparr>name = ''Ann'', email = ''ann@x.io'', money = 100, trust = 50, pvt_cards = 0, loan = 0\<rparr>"]
    loanLimit_tier_table [of "Some \<lparr>name = ''Ann'', email = ''ann@x.io'', money = 100, trust = 300, pvt_cards = 0, loan = 0\<rparr>"]
    loanLimit_tier_table [of "Some \<lparr>name = ''Ann'', email = ''ann@x.io'', money = 100, trust = 500, pvt_cards = 0, loan = 0\<rparr>"]
    loanLimit_tier_table [of "Some \<lparr>name = ''Ann'', email = ''ann@x.io'', money = 100, trust = 700, pvt_cards = 0, loan = 0\<rparr>"]
    loanLimit_tier_table [of "Some \<lparr>name = ''Ann'', email = ''ann@x.io'', money = 100, trust = 850, pvt_cards = 0, loan = 0\<rparr>"]
  by (simp add: userTrust_def)

subsection \<open>C2: the percentages shown for a market\<close>

text \<open>
  C2 fails on the public dashboard. In the scenario of the specification (100 staked
  on Yes, 50 on No, pool 150) the market page shows 67% and 33%, the stake on each
  outcome over the pool, while the dashboard card shows 50% and 50%, the share of
  participants; and for a market without stakes the market page shows the equal
  split, 50% and 50%, while the card shows 0% and 0%.
\<close>

theorem getStats_headcount_divergence:
  "getStats (Some scenario_market)
     = Inr [\<lparr>c_name = ''Yes'', c_percent = 50\<rparr>, \<lparr>c_name = ''No'', c_percent = 50\<rparr>]
   \<and> outcomeStats scenario_market
     = Inr [\<lparr>s_outcome = ''Yes'', s_count = 1, s_percent = 67, s_amount = 100\<rparr>,
            \<lparr>s_outcome = ''No'', s_count = 1, s_percent = 33, s_amount = 50\<rparr>]
   \<and> Math_round (100 / 150 * 100) = 67
   \<and> getStats (Some empty_market)
     = Inr [\<lparr>c_name = ''Yes'', c_percent = 0\<rparr>, \<lparr>c_name = ''No'', c_percent = 0\<rparr>]
   \<and> outcomeStats empty_market
     = Inr [\<lparr>s_outcome = ''Yes'', s_count = 0, s_percent = 50, s_amount = 0\<rparr>,
            \<lparr>s_outcome = ''No'', s_count = 0, s_percent = 50, s_amount = 0\<rparr>]"
  by code_simp

subsection \<open>C3: the return figures of the client and the settlement\<close>




subsection \<open>C4: borrowing beyond the limit is refused before any request\<close>




subsection \<open>C5: repaying more than the balance is refused before any request\<close>

text \<open>
  C5. For a logged-in user whose balance is not negative (the account invariant of the
  data model), when the repayment amount exceeds the available balance,
  \<open>handleRepay\<close> only sets the error message \<open>Insufficient funds\<close>: the trace of
  requests is empty, so \<open>repayLoan\<close> is not issued and the account is not refreshed
  (balance and loan stay what they were), and every other field of the page is
  unchanged.
\<close>

theorem handleRepay_insufficient_funds:
  assumes "0 \<le> money usr" and "Number (repayAmount s) > money usr"
  shows "handleRepay api (Some usr) s
         = (s\<lparr>message := Some (error, Plain ''Insufficient funds'')\<rparr>, [])"
  using assms
  by (auto simp add: handleRepay_def falsy_def Number_def userMoney_def split: option.splits)

theorem handleRepay_insufficient_funds_witness:
  "handleRepay server_accepts (Some ann)
     \<lparr>repayAmount = Some 500, borrowAmount = None, loading = False, message = None\<rparr>
   = (\<lparr>repayAmount = Some 500, borrowAmount = None, loading = False,
       message = Some (error, Plain ''Insufficient funds'')\<rparr>, [])"
  using handleRepay_insufficient_funds
    [of ann
        "\<lparr>repayAmount = Some 500, borrowAmount = None, loading = False, message = None\<rparr>"
        server_accepts]
  by (simp add: Number_def ann_def)

subsection \<open>C6: stakes below the minimum or above the balance\<close>

text \<open>
  C6, as the code has it. For a logged-in user, \<open>handlePlaceBet\<close> rejects an amount
  that is positive and below the market's minimum stake with the below-minimum error,
  and an amount that is positive, not below the minimum and above the user's balance
  with the insufficient-funds error; an amount that is not positive, or not a number,
  is rejected before either check with \<open>Invalid amount.\<close>. In all three cases only
  \<open>bettingError\<close> changes and the trace of requests is empty: no join-bet request is
  sent and the account is not refreshed.
\<close>

theorem handlePlaceBet_rejections:
  "(case parseFloat (amount s) of
      None \<Rightarrow>
        handlePlaceBet parseFloat api fetched (Some usr) s
          = (s\<lparr>bettingError := Plain ''Invalid amount.''\<rparr>, [])
    | Some a \<Rightarrow>
        (a \<le> 0 \<longrightarrow>
           handlePlaceBet parseFloat api fetched (Some usr) s
             = (s\<lparr>bettingError := Plain ''Invalid amount.''\<rparr>, []))
        \<and> (0 < a \<and> a < or_default (base_price (bet s)) 0 \<longrightarrow>
             handlePlaceBet parseFloat api fetched (Some usr) s
               = (s\<lparr>bettingError :=
                      WithAmount ''Minimum bet is $'' (or_default (base_price (bet s)) 10)\<rparr>,
                  []))
        \<and> (0 < a \<and> or_default (base_price (bet s)) 0 \<le> a \<and> money usr < a \<longrightarrow>
             handlePlaceBet parseFloat api fetched (Some usr) s
               = (s\<lparr>bettingError := Plain ''Insufficient funds.''\<rparr>, [])))"
  by (simp add: handlePlaceBet_def split: option.split)

theorem handlePlaceBet_rejections_witness:
  "handlePlaceBet sample_parseFloat server_accepts refetch (Some ann) (quick_bet ''5'')
     = ((quick_bet ''5'')\<lparr>bettingError := WithAmount ''Minimum bet is $'' 10\<rparr>, [])
   \<and> handlePlaceBet sample_parseFloat server_accepts refetch (Some ann) (quick_bet ''500'')
     = ((quick_bet ''500'')\<lparr>bettingError := Plain ''Insufficient funds.''\<rparr>, [])
   \<and> handlePlaceBet sample_parseFloat server_accepts refetch (Some ann) (quick_bet ''-'')
     = ((quick_bet ''-'')\<lparr>bettingError := Plain ''Invalid amount.''\<rparr>, [])
   \<and> handlePlaceBet sample_parseFloat server_accepts refetch (Some ann) (quick_bet ''0'')
     = ((quick_bet ''0'')\<lparr>bettingError := Plain ''Invalid amount.''\<rparr>, [])"
  using
    handlePlaceBet_rejections [where parseFloat = sample_parseFloat and s = "quick_bet ''0''"
      and api = server_accepts and fetched = refetch and usr = ann]
    handlePlaceBet_rejections [where parseFloat = sample_parseFloat and s = "quick_bet ''5''"
      and api = server_accepts and fetched = refetch and usr = ann]
    handlePlaceBet_rejections [where parseFloat = sample_parseFloat and s = "quick_bet ''500''"
      and api = server_accepts and fetched = refetch and usr = ann]
    handlePlaceBet_rejections [where parseFloat = sample_parseFloat and s = "quick_bet ''-''"
      and api = server_accepts and fetched = refetch and usr = ann]
  by (simp add: sample_parseFloat_def quick_bet_def scenario_market_def or_default_def ann_def)

text \<open>
  The claim as written fails at the amount \<open>0\<close>: it is below the minimum stake of 10,
  and the error raised is \<open>Invalid amount.\<close>, not the below-minimum one.
\<close>

theorem handlePlaceBet_zero_counterexample:
  "sample_parseFloat (amount (quick_bet ''0'')) = Some 0
   \<and> (0::rat) < or_default (base_price (bet (quick_bet ''0''))) 0
   \<and> handlePlaceBet sample_parseFloat server_accepts refetch (Some ann) (quick_bet ''0'')
     = ((quick_bet ''0'')\<lparr>bettingError := Plain ''Invalid amount.''\<rparr>, [])
   \<and> handlePlaceBet sample_parseFloat server_accepts refetch (Some ann) (quick_bet ''0'')
     \<noteq> ((quick_bet ''0'')\<lparr>bettingError := WithAmount ''Minimum bet is $'' 10\<rparr>, [])"
  by (simp add: handlePlaceBet_def sample_parseFloat_def quick_bet_def scenario_market_def
      or_default_def)

subsection \<open>C7: one stake per market\<close>




subsection \<open>C8: the MAX button\<close>

text \<open>
  C8. Clicking MAX on the repay form sets the repayment amount to the minimum of the
  available balance and the outstanding loan, so the prefilled amount exceeds neither.
\<close>

theorem clickMax_is_min:
  "repayAmount (clickMax u s) = Some (min (userMoney u) (userLoan u))
   \<and> Number (repayAmount (clickMax u s)) \<le> userMoney u
   \<and> Number (repayAmount (clickMax u s)) \<le> userLoan u"
  by (simp add: clickMax_def Number_def min_def)

subsection \<open>C9: the dashboard lists\<close>

text \<open>
  C9, as the code has it. On the public dashboard every fetched market is in exactly
  one of the two lists: in the completed list if and only if its status is
  \<open>RESULT_DECLARED\<close> or \<open>CLOSED\<close>, in the active list otherwise. On the private
  dashboard the fetched markets go to three lists: a market the user created goes to
  the created list only, whatever its status, and every other market is in exactly one
  of the joined and completed lists, completed if and only if its status is
  \<open>RESULT_DECLARED\<close> or \<open>CLOSED\<close>.
\<close>

theorem dashboard_lists_partition:
  assumes "fetchBets (Some bs) = (active, completed)"
    and "fetchData lowerTrim usr (Some ms) = (created, joined, completedPools)"
  shows "mset active + mset completed = mset bs
         \<and> (\<forall>b \<in> set bs.
               (b \<in> set completed \<longleftrightarrow> status b = ''RESULT_DECLARED'' \<or> status b = ''CLOSED'')
             \<and> (b \<in> set active \<longleftrightarrow> \<not> (status b = ''RESULT_DECLARED'' \<or> status b = ''CLOSED'')))
         \<and> mset created + (mset joined + mset completedPools) = mset ms
         \<and> (\<forall>b \<in> set ms.
               (b \<in> set created \<longleftrightarrow> lowerTrim (creator b) = lowerTrim (email usr))
             \<and> (b \<in> set completedPools \<longleftrightarrow>
                    lowerTrim (creator b) \<noteq> lowerTrim (email usr)
                    \<and> (status b = ''RESULT_DECLARED'' \<or> status b = ''CLOSED''))
             \<and> (b \<in> set joined \<longleftrightarrow>
                    lowerTrim (creator b) \<noteq> lowerTrim (email usr)
                    \<and> \<not> (status b = ''RESULT_DECLARED'' \<or> status b = ''CLOSED'')))"
proof -
  let ?mine = "\<lambda>b. lowerTrim (creator b) = lowerTrim (email usr)"
  let ?others = "filter (\<lambda>b. \<not> ?mine b) ms"
  from assms(1) have a: "active = filter (\<lambda>b. \<not> is_completed b) bs"
    and c: "completed = filter is_completed bs"
    by (auto simp add: fetchBets_def Let_def is_active_not_completed)
  from assms(2) have cr: "created = filter ?mine ms"
    and j: "joined = filter (\<lambda>b. \<not> is_completed b) ?others"
    and cp: "completedPools = filter is_completed ?others"
    by (auto simp add: fetchData_def Let_def is_active_not_completed)
  have 1: "mset active + mset completed = mset bs"
    unfolding a c using mset_filter_split [of is_completed bs] by (simp add: add.commute)
  have jc: "mset joined + mset completedPools = mset ?others"
    unfolding j cp using mset_filter_split [of is_completed ?others] by (simp add: add.commute)
  have 2: "mset created + (mset joined + mset completedPools) = mset ms"
    unfolding jc cr by (rule mset_filter_split)
  have 3: "\<forall>b \<in> set bs.
               (b \<in> set completed \<longleftrightarrow> status b = ''RESULT_DECLARED'' \<or> status b = ''CLOSED'')
             \<and> (b \<in> set active \<longleftrightarrow> \<not> (status b = ''RESULT_DECLARED'' \<or> status b = ''CLOSED''))"
    unfolding a c by (simp add: is_completed_def)
  have 4: "\<forall>b \<in> set ms.
               (b \<in> set created \<longleftrightarrow> lowerTrim (creator b) = lowerTrim (email usr))
             \<and> (b \<in> set completedPools \<longleftrightarrow>
                    lowerTrim (creator b) \<noteq> lowerTrim (email usr)
                    \<and> (status b = ''RESULT_DECLARED'' \<or> status b = ''CLOSED''))
             \<and> (b \<in> set joined \<longleftrightarrow>
                    lowerTrim (creator b) \<noteq> lowerTrim (email usr)
                    \<and> \<not> (status b = ''RESULT_DECLARED'' \<or> status b = ''CLOSED''))"
    unfolding cr j cp by (auto simp add: is_completed_def)
  from 1 2 3 4 show ?thesis by blast
qed

theorem dashboard_lists_partition_witness:
  "fetchBets (Some [scenario_market, declared_market, own_market])
     = ([scenario_market, own_market], [declared_market])
   \<and> fetchData id ann (Some [scenario_market, declared_market, own_market])
     = ([own_market], [scenario_market], [declared_market])
   \<and> mset [scenario_market, own_market] + mset [declared_market]
     = mset [scenario_market, declared_market, own_market]
   \<and> mset [own_market] + (mset [scenario_market] + mset [declared_market])
     = mset [scenario_market, declared_market, own_market]"
proof -
  have f: "fetchBets (Some [scenario_market, declared_market, own_market])
           = ([scenario_market, own_market], [declared_market])"
    by (simp add: fetchBets_def own_market_def declared_market_def scenario_market_def
        is_active_def is_completed_def)
  have g: "fetchData id ann (Some [scenario_market, declared_market, own_market])
           = ([own_market], [scenario_market], [declared_market])"
    by (simp add: fetchData_def own_market_def declared_market_def scenario_market_def
        ann_def is_active_def is_completed_def)
  from dashboard_lists_partition [OF f g] f g show ?thesis
    by blast
qed

text \<open>
  The claim as written fails on the private dashboard: an open market the user created
  is fetched, and is in neither the joined nor the completed list.
\<close>

theorem fetchData_created_counterexample:
  "fetchData id ann (Some [own_market]) = ([own_market], [], [])"
  by (simp add: fetchData_def own_market_def scenario_market_def ann_def)

subsection \<open>C10: the card statistics on arbitrary records\<close>

text \<open>
  C10, as the code has it. \<open>getStats\<close> never lets a syntax error escape. It returns
  for a missing record, and for a record with malformed JSON in either list field:
  both lists are then replaced by the fallbacks, no participants and the outcomes Yes
  and No, whatever the other field holds. With neither field malformed it raises a
  TypeError exactly when the participants or the outcomes field is the JSON text
  \<open>null\<close>, or the participants array has a \<open>null\<close> entry and there is an outcome to
  count for; in every other case it returns, an absent outcomes field standing for Yes
  and No and an absent participants field for no participants. Whenever it returns
  without the fallback, the result has exactly one entry per outcome, in order, each
  with a whole percentage between 0 and 100.
\<close>

theorem getStats_returns_or_throws:
  fixes r :: any_bet
  defines "entries \<equiv> (case any_participants r of Array xs \<Rightarrow> xs | Json_array xs \<Rightarrow> xs | _ \<Rightarrow> [])"
    and "labels \<equiv> (case any_outcomes r of Array os \<Rightarrow> os | Json_array os \<Rightarrow> os
                    | _ \<Rightarrow> [''Yes'', ''No''])"
  defines "caught \<equiv> any_participants r = Malformed \<or> any_outcomes r = Malformed"
  defines "thrown \<equiv> any_participants r = Json_null \<or> any_outcomes r = Json_null
                    \<or> (None \<in> set entries \<and> labels \<noteq> [])"
  shows "getStats_any None
           = Inr [\<lparr>c_name = ''Yes'', c_percent = 0\<rparr>, \<lparr>c_name = ''No'', c_percent = 0\<rparr>]
         \<and> (caught \<longrightarrow>
              getStats_any (Some r)
                = Inr [\<lparr>c_name = ''Yes'', c_percent = 0\<rparr>, \<lparr>c_name = ''No'', c_percent = 0\<rparr>])
         \<and> (\<not> caught \<and> thrown \<longrightarrow> getStats_any (Some r) = Inl TypeError)
         \<and> (\<not> caught \<and> \<not> thrown \<longrightarrow>
              (\<exists>stats. getStats_any (Some r) = Inr stats
                 \<and> map c_name stats = labels
                 \<and> (\<forall>s \<in> set stats. 0 \<le> c_percent s \<and> c_percent s \<le> 100)))"
proof -
  have none: "getStats_any None
           = Inr [\<lparr>c_name = ''Yes'', c_percent = 0\<rparr>, \<lparr>c_name = ''No'', c_percent = 0\<rparr>]"
    by (simp add: getStats_any_def)
  have fallback: "getStats_any (Some r)
           = Inr [\<lparr>c_name = ''Yes'', c_percent = 0\<rparr>, \<lparr>c_name = ''No'', c_percent = 0\<rparr>]"
    if caught
    using that unfolding caught_def
    by (auto simp add: getStats_any_def read_field_def split: field.splits)
  have rest: "(thrown \<longrightarrow> getStats_any (Some r) = Inl TypeError)
         \<and> (\<not> thrown \<longrightarrow>
              (\<exists>stats. getStats_any (Some r) = Inr stats
                 \<and> map c_name stats = labels
                 \<and> (\<forall>s \<in> set stats. 0 \<le> c_percent s \<and> c_percent s \<le> 100)))"
    if "\<not> caught"
  proof (cases "any_participants r = Json_null")
    case True
    with that show ?thesis
      by (auto simp add: getStats_any_def read_field_def thrown_def caught_def
          split: field.splits)
  next
    case pn: False
    with that have ps: "read_field [] (any_participants r) = Inr (Arr entries)"
      by (cases "any_participants r") (auto simp add: read_field_def entries_def caught_def)
    show ?thesis
    proof (cases "any_outcomes r = Json_null")
      case True
      with ps show ?thesis
        by (simp add: getStats_any_def read_field_def thrown_def)
    next
      case on: False
      with that have os: "read_field [''Yes'', ''No''] (any_outcomes r) = Inr (Arr labels)"
        by (cases "any_outcomes r") (auto simp add: read_field_def labels_def caught_def)
      have th: "thrown \<longleftrightarrow> None \<in> set entries \<and> labels \<noteq> []"
        using pn on by (simp add: thrown_def)
      show ?thesis
      proof (cases "length entries = 0")
        case True
        with ps os th show ?thesis
          by (simp add: getStats_any_def o_def)
      next
        case False
        then have pos: "0 < length entries"
          by simp
        define stat where "stat = (\<lambda>outcome.
             case filter_prediction entries outcome of
               Inl e \<Rightarrow> Inl e
             | Inr matching \<Rightarrow>
                 (let count = length matching
                  in Inr \<lparr>c_name = outcome,
                          c_percent = Math_round
                            (fmul (fdiv (of_nat count) (of_nat (length entries))) 100)\<rparr>))"
        have run: "getStats_any (Some r) = map_js stat labels"
          using ps os False by (simp add: getStats_any_def Let_def stat_def)
        show ?thesis
        proof (cases "None \<in> set entries")
          case True
          show ?thesis
          proof (cases "labels = []")
            case True
            with run th show ?thesis
              by simp
          next
            case False
            have "stat (hd labels) = Inl TypeError"
              using True by (simp add: stat_def filter_prediction_null)
            with False have "map_js stat labels = Inl TypeError"
              by (rule map_js_throws)
            with run th True False show ?thesis
              by simp
          qed
        next
          case False
          define count where "count = (\<lambda>outcome.
             length (projr (filter_prediction entries outcome)))"
          define mk where "mk = (\<lambda>outcome.
             \<lparr>c_name = outcome,
              c_percent = Math_round
                (fmul (fdiv (of_nat (count outcome)) (of_nat (length entries))) 100)\<rparr>)"
          have f: "stat outcome = Inr (mk outcome)" and c: "count outcome \<le> length entries"
            for outcome
            using filter_prediction_length [OF False, of outcome]
            by (auto simp add: stat_def mk_def count_def Let_def)
          have "map_js stat labels = Inr (map mk labels)"
            by (rule map_js_returns) (rule f)
          with run have r: "getStats_any (Some r) = Inr (map mk labels)"
            by simp
          have n: "map c_name (map mk labels) = labels"
            by (simp add: mk_def o_def)
          have b: "\<forall>s \<in> set (map mk labels). 0 \<le> c_percent s \<and> c_percent s \<le> 100"
            using percent_double [OF c pos] by (auto simp add: mk_def)
          from r n b th False show ?thesis
            by blast
        qed
      qed
    qed
  qed
  from none fallback rest show ?thesis
    by blast
qed

theorem getStats_returns_or_throws_witness:
  "getStats_any (Some (as_any scenario_market))
     = Inr [\<lparr>c_name = ''Yes'', c_percent = 50\<rparr>, \<lparr>c_name = ''No'', c_percent = 50\<rparr>]
   \<and> getStats_any (Some \<lparr>any_participants = Json_null, any_outcomes = Malformed\<rparr>)
     = Inr [\<lparr>c_name = ''Yes'', c_percent = 0\<rparr>, \<lparr>c_name = ''No'', c_percent = 0\<rparr>]
   \<and> getStats_any (Some \<lparr>any_participants = Array [None], any_outcomes = Absent\<rparr>)
     = Inl TypeError"
proof -
  have 1: "getStats_any (Some (as_any scenario_market))
     = Inr [\<lparr>c_name = ''Yes'', c_percent = 50\<rparr>, \<lparr>c_name = ''No'', c_percent = 50\<rparr>]"
  proof -
    from getStats_returns_or_throws [of "as_any scenario_market"]
    obtain stats where "getStats_any (Some (as_any scenario_market)) = Inr stats"
      by (auto simp add: as_any_def scenario_market_def scenario_stakes_def)
    moreover have "getStats_any (Some (as_any scenario_market))
     = Inr [\<lparr>c_name = ''Yes'', c_percent = 50\<rparr>, \<lparr>c_name = ''No'', c_percent = 50\<rparr>]"
      by code_simp
    ultimately show ?thesis
      by simp
  qed
  have 2: "getStats_any (Some \<lparr>any_participants = Json_null, any_outcomes = Malformed\<rparr>)
     = Inr [\<lparr>c_name = ''Yes'', c_percent = 0\<rparr>, \<lparr>c_name = ''No'', c_percent = 0\<rparr>]"
    using getStats_returns_or_throws
      [of "\<lparr>any_participants = Json_null, any_outcomes = Malformed\<rparr>"]
    by simp
  have 3: "getStats_any (Some \<lparr>any_participants = Array [None], any_outcomes = Absent\<rparr>)
     = Inl TypeError"
    using getStats_returns_or_throws
      [of "\<lparr>any_participants = Array [None], any_outcomes = Absent\<rparr>"]
    by simp
  from 1 2 3 show ?thesis
    by blast
qed

text \<open>
  The claim as written fails on a record whose \<open>participants\<close> field is the JSON text
  \<open>null\<close>: the text parses, nothing is caught, and reading the length of \<open>null\<close>
  raises a TypeError. It fails as well on a participants array with a \<open>null\<close> entry.
\<close>

theorem getStats_null_counterexample:
  "getStats (Some null_market) = Inl TypeError
   \<and> getStats_any (Some \<lparr>any_participants = Array [None], any_outcomes = Absent\<rparr>)
     = Inl TypeError"
  by (simp add: getStats_def getStats_any_def as_any_def read_field_def null_market_def
      scenario_market_def)

end
